theory Spec2Isabelle
  imports Complex_Main
begin

section \<open>The selection store of the article filter (components/archive/filter.tsx)\<close>

text \<open>
  The class \<open>Store\<close> holds the filter selection of the archive screen. Its fields are
  modelled as a record, its actions as functions from store to store. \<open>ITag\<close> and
  \<open>ICategory\<close> are declared outside the component and stay type parameters \<open>'t\<close> and
  \<open>'c\<close>. The union \<open>TFilterValue = ITag | ICategory | string\<close> is a datatype with one
  constructor per member; \<open>null\<close> and \<open>undefined\<close> are \<open>None\<close>.
\<close>

datatype EFilterType = Tag | Category | Search

datatype ('t, 'c) TFilterValue = TagValue 't | CategoryValue 'c | SearchValue string

text \<open>
  \<open>fetch.get(url, params)\<close> is an effect. Each call is recorded in the field \<open>sent\<close> of the
  store, in the order of the calls; the promise it returns settles later with an
  \<open>outcome\<close>. A successful response wraps a paginated result, of which \<open>data\<close> is the list
  and \<open>pagination\<close> the page information.
\<close>

datatype request = GET string "(string \<times> nat) list"

record ('a, 'p) IHttpResultPaginate =
  data :: "'a list"
  pagination :: 'p

record ('a, 'p) THttpSuccessResponse =
  result :: "('a, 'p) IHttpResultPaginate"

datatype 'r outcome = Resolved 'r | Rejected

record ('t, 'c) Store =
  filterActive :: bool
  filterType :: EFilterType
  filterValues :: "EFilterType \<Rightarrow> ('t, 'c) TFilterValue option"
  tags :: "'t list"
  categories :: "'c list"
  storeModalVisible :: bool
  sent :: "request list"

text \<open>The field initialisers of the class, before the constructor body runs.\<close>

definition initialStore :: "('t, 'c) Store" where
  "initialStore =
     \<lparr> filterActive = False,
       filterType = Category,
       filterValues = (\<lambda>k. None),
       tags = [],
       categories = [],
       storeModalVisible = False,
       sent = [] \<rparr>"

text \<open>
  \<open>fetchTags\<close> and \<open>fetchCategories\<close> each make one call and attach one fulfilment handler
  with \<open>then\<close>; there is no rejection handler. The call is the function below, the
  handler is \<open>tagsSettled\<close> and \<open>categoriesSettled\<close>: a rejected promise runs no code of
  the store.
\<close>

definition fetchTags :: "('t, 'c) Store \<Rightarrow> ('t, 'c) Store" where
  "fetchTags s = s\<lparr>sent := sent s @ [GET ''/tag'' [(''per_page'', 666)]]\<rparr>"

definition fetchCategories :: "('t, 'c) Store \<Rightarrow> ('t, 'c) Store" where
  "fetchCategories s = s\<lparr>sent := sent s @ [GET ''/category'' []]\<rparr>"

definition tagsSettled ::
  "('t, 'p) THttpSuccessResponse outcome \<Rightarrow> ('t, 'c) Store \<Rightarrow> ('t, 'c) Store" where
  "tagsSettled r s = (case r of Resolved x \<Rightarrow> s\<lparr>tags := data (result x)\<rparr> | Rejected \<Rightarrow> s)"

definition categoriesSettled ::
  "('c, 'p) THttpSuccessResponse outcome \<Rightarrow> ('t, 'c) Store \<Rightarrow> ('t, 'c) Store" where
  "categoriesSettled r s =
     (case r of Resolved x \<Rightarrow> s\<lparr>categories := data (result x)\<rparr> | Rejected \<Rightarrow> s)"

definition newStore :: "('t, 'c) Store" where
  "newStore = fetchCategories (fetchTags initialStore)"

text \<open>The getter \<open>filterValue\<close>: three tests on \<open>filterType\<close>, in the order of the source.\<close>

definition filterValue :: "('t, 'c) Store \<Rightarrow> ('t, 'c) TFilterValue option" where
  "filterValue s =
     (if filterType s = Search then filterValues s Search
      else if filterType s = Tag then filterValues s Tag
      else if filterType s = Category then filterValues s Category
      else None)"

definition updateActiveFilter ::
  "EFilterType \<Rightarrow> ('t, 'c) TFilterValue \<Rightarrow> ('t, 'c) Store \<Rightarrow> ('t, 'c) Store" where
  "updateActiveFilter type v s =
     s\<lparr> filterType := type,
        filterValues := (filterValues s)(type := Some v),
        filterActive := True \<rparr>"

definition clearActiveFilter :: "('t, 'c) Store \<Rightarrow> ('t, 'c) Store" where
  "clearActiveFilter s = s\<lparr>filterActive := False\<rparr>"

definition updateVisibleState :: "bool \<Rightarrow> ('t, 'c) Store \<Rightarrow> ('t, 'c) Store" where
  "updateVisibleState visible s = s\<lparr>storeModalVisible := visible\<rparr>"

text \<open>
  Everything that can happen to a store after its construction: one of the three actions,
  or one of the two promises settling.
\<close>

datatype ('t, 'c, 'p) storeEvent =
    UpdateActiveFilter EFilterType "('t, 'c) TFilterValue"
  | ClearActiveFilter
  | UpdateVisibleState bool
  | TagsSettled "('t, 'p) THttpSuccessResponse outcome"
  | CategoriesSettled "('c, 'p) THttpSuccessResponse outcome"

fun storeStep :: "('t, 'c, 'p) storeEvent \<Rightarrow> ('t, 'c) Store \<Rightarrow> ('t, 'c) Store" where
  "storeStep (UpdateActiveFilter type v) s = updateActiveFilter type v s"
| "storeStep ClearActiveFilter s = clearActiveFilter s"
| "storeStep (UpdateVisibleState b) s = updateVisibleState b s"
| "storeStep (TagsSettled r) s = tagsSettled r s"
| "storeStep (CategoriesSettled r) s = categoriesSettled r s"

fun storeRun :: "('t, 'c, 'p) storeEvent list \<Rightarrow> ('t, 'c) Store \<Rightarrow> ('t, 'c) Store" where
  "storeRun [] s = s"
| "storeRun (e # es) s = storeRun es (storeStep e s)"


section \<open>The animated modal (components/common/modal.tsx)\<close>

subsection \<open>Numbers and props\<close>

text \<open>
  A JavaScript number is a finite value or \<open>NaN\<close> here (the infinities are left out); an
  optional prop that the owner does not pass is \<open>None\<close>. The expression \<open>x || d\<close> on an
  optional number yields \<open>x\<close> when \<open>x\<close> is truthy, that is neither \<open>undefined\<close>, nor
  \<open>NaN\<close>, nor zero, and \<open>d\<close> otherwise.
\<close>

datatype number = Num rat | NaN

fun truthy :: "number option \<Rightarrow> bool" where
  "truthy None = False"
| "truthy (Some NaN) = False"
| "truthy (Some (Num r)) = (r \<noteq> 0)"

fun orDefault :: "number option \<Rightarrow> rat \<Rightarrow> rat" where
  "orDefault None d = d"
| "orDefault (Some NaN) d = d"
| "orDefault (Some (Num r)) d = (if r = 0 then d else r)"

record IModalProps =
  visible :: bool
  opacity :: "number option"

subsection \<open>The animated value and its timing animation\<close>

text \<open>
  \<open>maskOpacity\<close> is an \<open>Animated.Value\<close>: a current value and at most one animation
  attached to it. The component passes one closure to \<open>start\<close>, the arrow function that
  calls \<open>updateVisible(false)\<close>; it is the constructor \<open>Unmount\<close>. The closure takes
  no parameter, so the \<open>finished\<close> flag that the library passes to it is not read.
\<close>

datatype callback = Unmount

record timing =
  fromValue :: rat
  toValue :: rat
  duration :: nat
  startTime :: nat
  onEnd :: "callback option"

text \<open>
  The state of one component instance: its props, its two observable fields, the animation
  attached to \<open>maskOpacity\<close>, and two pieces of the environment: whether the platform
  modal has reported \<open>onShow\<close> for its current presentation, and the clock.
\<close>

record BetterModal =
  props :: IModalProps
  modalVisible :: bool
  maskOpacity :: rat
  running :: "timing option"
  shown :: bool
  clock :: nat

definition updateVisible :: "bool \<Rightarrow> BetterModal \<Rightarrow> BetterModal" where
  "updateVisible v m = m\<lparr>modalVisible := v\<rparr>"

definition propOpacity :: "BetterModal \<Rightarrow> rat" where
  "propOpacity m = orDefault (opacity (props m)) (1 / 2)"

fun invoke :: "callback option \<Rightarrow> BetterModal \<Rightarrow> BetterModal" where
  "invoke None m = m"
| "invoke (Some Unmount) m = updateVisible False m"

text \<open>
  \<open>Animated.timing(value, {toValue, duration}).start(callback)\<close>. By the contract of
  \<open>start\<close>, the callback is called when the animation is done: with \<open>finished: true\<close>
  when it ran to its end, with \<open>finished: false\<close> when it was stopped before, for
  instance by another animation on the same value. So the library first stops the
  animation that is attached to the value, if any, which calls that animation's callback
  at once; then the new animation is attached, starting at the value of that moment.
\<close>

definition stopAnimation :: "BetterModal \<Rightarrow> BetterModal" where
  "stopAnimation m =
     (case running m of
        None \<Rightarrow> m
      | Some a \<Rightarrow> invoke (onEnd a) (m\<lparr>running := None\<rparr>))"

definition timingStart :: "rat \<Rightarrow> nat \<Rightarrow> callback option \<Rightarrow> BetterModal \<Rightarrow> BetterModal" where
  "timingStart target dur cb m =
     (let m' = stopAnimation m
      in m'\<lparr>running := Some \<lparr> fromValue = maskOpacity m', toValue = target,
                               duration = dur, startTime = clock m', onEnd = cb \<rparr>\<rparr>)"

definition updateMaskVisible :: "bool \<Rightarrow> callback option \<Rightarrow> BetterModal \<Rightarrow> BetterModal" where
  "updateMaskVisible v cb m = timingStart (if v then propOpacity m else 0) 88 cb m"

definition handleVisibleChange :: "bool \<Rightarrow> BetterModal \<Rightarrow> BetterModal" where
  "handleVisibleChange v m =
     (if v then updateVisible True m
      else updateMaskVisible False (Some Unmount) m)"

subsection \<open>The environment: platform modal, clock, owner\<close>

text \<open>
  The platform modal is rendered with \<open>visible = modalVisible\<close>. It calls \<open>onShow\<close> once
  for each presentation, some time after \<open>modalVisible\<close> became true; when
  \<open>modalVisible\<close> is false it is dismissed and owes no call any more.
\<close>

definition present :: "BetterModal \<Rightarrow> BetterModal" where
  "present m = m\<lparr>shown := (shown m \<and> modalVisible m)\<rparr>"

text \<open>
  \<open>render\<close> puts the only view that is bound to \<open>maskOpacity\<close> inside the platform
  modal. When \<open>modalVisible\<close> goes from true to false that view is removed, the value
  loses its last listener, and the library stops the animation attached to it (which
  calls that animation's callback); the value stays where it was. The first argument
  is the state before the event, the second the state after its handler.
\<close>

definition detach :: "BetterModal \<Rightarrow> BetterModal \<Rightarrow> BetterModal" where
  "detach m m' = (if modalVisible m \<and> \<not> modalVisible m' then stopAnimation m' else m')"

definition onShowPending :: "BetterModal \<Rightarrow> bool" where
  "onShowPending m = (modalVisible m \<and> \<not> shown m)"

text \<open>
  Time passes in whole units, and \<open>elapse d\<close> is the next frame, \<open>d\<close> units after the
  state it starts from. At a frame before the end of the attached animation the value at
  progress \<open>x\<close> (the elapsed share of the duration) is
  \<open>fromValue + (toValue - fromValue) * ease x\<close>, for the easing function \<open>ease\<close> of the
  animation; the component does not choose one, so it is a parameter. At the first frame
  at or after the end the value is \<open>toValue\<close>, the animation is detached and its
  callback runs.
\<close>

definition elapse :: "(rat \<Rightarrow> rat) \<Rightarrow> nat \<Rightarrow> BetterModal \<Rightarrow> BetterModal option" where
  "elapse ease d m =
     (case running m of
        None \<Rightarrow> Some (m\<lparr>clock := clock m + d\<rparr>)
      | Some a \<Rightarrow>
          if clock m + d < startTime a + duration a then
            Some (m\<lparr>clock := clock m + d,
                    maskOpacity := fromValue a + (toValue a - fromValue a) *
                      ease (of_nat (clock m + d - startTime a) / of_nat (duration a))\<rparr>)
          else
            Some (invoke (onEnd a)
                    (m\<lparr>clock := clock m + d, maskOpacity := toValue a, running := None\<rparr>)))"

text \<open>The easing that is used for concrete runs: progress itself.\<close>

definition easeLinear :: "rat \<Rightarrow> rat" where
  "easeLinear x = x"

text \<open>
  The constructor: the field initialisers, then the reaction on \<open>props.visible\<close>, which
  fires immediately.
\<close>

definition newModal :: "IModalProps \<Rightarrow> BetterModal" where
  "newModal p =
     present (handleVisibleChange (visible p)
       \<lparr> props = p, modalVisible = False, maskOpacity = 0, running = None,
         shown = False, clock = 0 \<rparr>)"

text \<open>
  The events of one instance. \<open>SetVisible b\<close>: the owner changes the prop to \<open>b\<close>, and
  the reaction runs \<open>handleVisibleChange\<close> (a reaction does not run when the value is
  the same as before). \<open>OnShow\<close>: the platform modal calls \<open>onShow\<close>, which starts the
  fade-in without a callback. \<open>Elapse d\<close>: the next frame comes \<open>d\<close> units of time
  later. An event that cannot happen in a state gives \<open>None\<close>. After the handler of an
  event, the mask view is removed if the modal has been unmounted, and the platform modal
  follows \<open>modalVisible\<close>.
\<close>

datatype event = SetVisible bool | OnShow | Elapse nat

fun fire :: "(rat \<Rightarrow> rat) \<Rightarrow> event \<Rightarrow> BetterModal \<Rightarrow> BetterModal option" where
  "fire ease (SetVisible b) m =
     (if b = visible (props m) then None
      else Some (handleVisibleChange b (m\<lparr>props := (props m)\<lparr>visible := b\<rparr>\<rparr>)))"
| "fire ease OnShow m =
     (if onShowPending m then Some (updateMaskVisible True None (m\<lparr>shown := True\<rparr>))
      else None)"
| "fire ease (Elapse d) m = elapse ease d m"

definition step :: "(rat \<Rightarrow> rat) \<Rightarrow> event \<Rightarrow> BetterModal \<Rightarrow> BetterModal option" where
  "step ease e m =
     (case fire ease e m of
        None \<Rightarrow> None
      | Some m' \<Rightarrow> Some (present (detach m m')))"

fun run :: "(rat \<Rightarrow> rat) \<Rightarrow> event list \<Rightarrow> BetterModal \<Rightarrow> BetterModal option" where
  "run ease [] m = Some m"
| "run ease (e # es) m = (case step ease e m of None \<Rightarrow> None | Some m' \<Rightarrow> run ease es m')"

text \<open>
  A state has stabilised when no animation is attached and no \<open>onShow\<close> is owed. A
  fade-out is pending when the attached animation carries the unmounting callback.
\<close>

definition stable :: "BetterModal \<Rightarrow> bool" where
  "stable m = (running m = None \<and> \<not> onShowPending m)"

definition unmountPending :: "BetterModal \<Rightarrow> bool" where
  "unmountPending m = (case running m of None \<Rightarrow> False | Some a \<Rightarrow> onEnd a = Some Unmount)"

fun isToggle :: "event \<Rightarrow> bool" where
  "isToggle (SetVisible b) = True"
| "isToggle OnShow = False"
| "isToggle (Elapse d) = False"

text \<open>What an observer sees of a state: mounted or not, the opacity of the mask, the time.\<close>

definition observe :: "BetterModal \<Rightarrow> bool \<times> rat \<times> nat" where
  "observe m = (modalVisible m, maskOpacity m, clock m)"



fun interrupts :: "event \<Rightarrow> BetterModal \<Rightarrow> bool" where
  "interrupts (SetVisible b) m = (\<not> b \<and> unmountPending m)"
| "interrupts OnShow m = unmountPending m"
| "interrupts (Elapse d) m = False"

text \<open>
  A fade-in is the animation without a callback. A modal is closed and at rest when the
  owner does not ask for it, it is unmounted, nothing is attached to the mask and the
  mask is transparent.
\<close>

definition fadeInAttached :: "BetterModal \<Rightarrow> bool" where
  "fadeInAttached m = (case running m of None \<Rightarrow> False | Some a \<Rightarrow> onEnd a = None)"


text \<open>
  Two properties of states used as invariants. The first: an attached animation lasts 88
  units, and one with the unmounting callback goes to 0. The second: unless the modal is
  mounted and has been shown, its mask is transparent and an animation attached to it
  stays at 0.
\<close>

definition fadeOutsEndAtZero :: "BetterModal \<Rightarrow> bool" where
  "fadeOutsEndAtZero m =
     (case running m of
        None \<Rightarrow> True
      | Some a \<Rightarrow> duration a = 88 \<and> (onEnd a = None \<or> toValue a = 0))"



section \<open>The selection store: properties\<close>

lemma storeRun_sent: "sent (storeRun es s) = sent s"
proof (induction es arbitrary: s)
  case Nil
  show ?case by simp
next
  case (Cons e es)
  have "sent (storeStep e s) = sent s"
    by (cases e)
      (simp_all add: updateActiveFilter_def clearActiveFilter_def updateVisibleState_def
         tagsSettled_def categoriesSettled_def split: outcome.split)
  with Cons.IH [of "storeStep e s"] show ?case by simp
qed

text \<open>
  Claim C4, as stated, fails: after a tag has been selected and the selection has been
  cleared, \<open>filterActive\<close> is false and the getter \<open>filterValue\<close> still returns the tag.
\<close>

theorem C4_counterexample:
  "filterActive (clearActiveFilter
       (updateActiveFilter Tag (TagValue (1::nat)) (newStore :: (nat, nat) Store))) = False
   \<and> filterValue (clearActiveFilter
       (updateActiveFilter Tag (TagValue (1::nat)) (newStore :: (nat, nat) Store)))
     = Some (TagValue 1)"
  by (simp add: clearActiveFilter_def updateActiveFilter_def filterValue_def)

text \<open>
  Claim C4, amended: \<open>filterValue\<close> returns the value stored for the dimension in
  \<open>filterType\<close>, whether \<open>filterActive\<close> is set or not. After a selection it is the value
  selected, also once the selection has been cleared; on a new store it is absent.
\<close>

theorem C4_filterValue_ignores_filterActive:
  "filterValue s = filterValues s (filterType s)
   \<and> filterValue (s\<lparr>filterActive := b\<rparr>) = filterValue s
   \<and> filterValue (updateActiveFilter type v s) = Some v
   \<and> filterValue (clearActiveFilter (updateActiveFilter type v s)) = Some v
   \<and> filterValue (newStore :: ('t, 'c) Store) = None"
  by (cases "filterType s"; cases type)
    (simp_all add: filterValue_def updateActiveFilter_def clearActiveFilter_def
       newStore_def fetchTags_def fetchCategories_def initialStore_def)

text \<open>
  Claim C5: \<open>clearActiveFilter\<close> sets \<open>filterActive\<close> to false and leaves every other
  field as it was: the active dimension, the stored values of all dimensions, both
  lists, the visibility flag and the requests sent.
\<close>

theorem C5_clear_changes_only_filterActive:
  "filterActive (clearActiveFilter s) = False
   \<and> filterType (clearActiveFilter s) = filterType s
   \<and> filterValues (clearActiveFilter s) = filterValues s
   \<and> tags (clearActiveFilter s) = tags s
   \<and> categories (clearActiveFilter s) = categories s
   \<and> storeModalVisible (clearActiveFilter s) = storeModalVisible s
   \<and> sent (clearActiveFilter s) = sent s
   \<and> clearActiveFilter s = s\<lparr>filterActive := False\<rparr>"
  by (simp add: clearActiveFilter_def)

text \<open>
  Claim C6: \<open>updateActiveFilter d v\<close> stores \<open>v\<close> under \<open>d\<close>, makes \<open>d\<close> the active
  dimension and sets \<open>filterActive\<close>; so after selecting a tag and then a category the
  getter returns the category, and after selecting the tag again it returns the tag.
\<close>

theorem C6_updateActiveFilter_selects:
  "filterValues (updateActiveFilter d v s) d = Some v
   \<and> filterType (updateActiveFilter d v s) = d
   \<and> filterActive (updateActiveFilter d v s) = True
   \<and> filterValue (updateActiveFilter d v s) = Some v
   \<and> filterValue (updateActiveFilter Category (CategoryValue c1)
        (updateActiveFilter Tag (TagValue t1) s)) = Some (CategoryValue c1)
   \<and> filterValue (updateActiveFilter Tag (TagValue t1)
        (updateActiveFilter Category (CategoryValue c1)
          (updateActiveFilter Tag (TagValue t1) s))) = Some (TagValue t1)"
  by (cases d) (simp_all add: updateActiveFilter_def filterValue_def)

text \<open>
  Claim C9: the constructor sends two requests, \<open>/tag\<close> with \<open>per_page = 666\<close> and then
  \<open>/category\<close>, and no action or settled promise sends another. A fulfilled promise
  stores the \<open>data\<close> list of the result and nothing else; a rejected promise leaves the
  store as it is, so that the list is still empty.
\<close>

theorem C9_two_requests_at_construction:
  "sent (newStore :: ('t, 'c) Store) = [GET ''/tag'' [(''per_page'', 666)], GET ''/category'' []]
   \<and> sent (storeRun (es :: ('t, 'c, 'p) storeEvent list) newStore)
       = sent (newStore :: ('t, 'c) Store)
   \<and> tagsSettled (Resolved (x :: ('t, 'p) THttpSuccessResponse)) (s :: ('t, 'c) Store)
       = s\<lparr>tags := data (result x)\<rparr>
   \<and> categoriesSettled (Resolved (y :: ('c, 'p) THttpSuccessResponse)) s
       = s\<lparr>categories := data (result y)\<rparr>
   \<and> tagsSettled (Rejected :: ('t, 'p) THttpSuccessResponse outcome) s = s
   \<and> categoriesSettled (Rejected :: ('c, 'p) THttpSuccessResponse outcome) s = s
   \<and> tags (tagsSettled (Rejected :: ('t, 'p) THttpSuccessResponse outcome)
        (newStore :: ('t, 'c) Store)) = []
   \<and> categories (categoriesSettled (Rejected :: ('c, 'p) THttpSuccessResponse outcome)
        (newStore :: ('t, 'c) Store)) = []"
  by (simp add: storeRun_sent)
    (simp add: newStore_def fetchTags_def fetchCategories_def initialStore_def
       tagsSettled_def categoriesSettled_def)


section \<open>The animated modal: properties\<close>

lemmas modal_defs =
  step_def handleVisibleChange_def updateVisible_def present_def detach_def
  onShowPending_def updateMaskVisible_def timingStart_def stopAnimation_def elapse_def
  propOpacity_def

lemmas run_defs = modal_defs newModal_def easeLinear_def observe_def stable_def

subsection \<open>Callbacks\<close>

lemma callback_singleton [simp]: "(c :: callback) = Unmount" "Unmount = (c :: callback)"
  by (cases c; simp)+

lemma callback_option_cases: "cb = None \<or> cb = Some Unmount"
proof (cases cb)
  case None
  then show ?thesis by simp
next
  case (Some c)
  then show ?thesis by simp
qed

lemma not_Unmount_iff [simp]: "(cb \<noteq> Some Unmount) = (cb = None)"
  using callback_option_cases [of cb] by auto

lemma invoke_fields [simp]:
  "running (invoke cb m) = running m"
  "maskOpacity (invoke cb m) = maskOpacity m"
  "clock (invoke cb m) = clock m"
  "props (invoke cb m) = props m"
  "shown (invoke cb m) = shown m"
  using callback_option_cases [of cb] by (auto simp: updateVisible_def)

lemma invoke_modalVisible:
  "modalVisible (invoke cb m) = (modalVisible m \<and> cb = None)"
  using callback_option_cases [of cb] by (auto simp: updateVisible_def)

subsection \<open>Invariants of runs\<close>

lemma newModal_fadeOuts: "fadeOutsEndAtZero (newModal p)"
  by (simp add: newModal_def modal_defs fadeOutsEndAtZero_def Let_def)

lemma step_fadeOuts:
  assumes "step ease e m = Some m'" and "fadeOutsEndAtZero m"
  shows "fadeOutsEndAtZero m'"
proof (cases e)
  case (SetVisible b)
  with assms show ?thesis
    by (auto simp: modal_defs fadeOutsEndAtZero_def Let_def split: option.splits if_splits)
next
  case OnShow
  with assms show ?thesis
    by (auto simp: modal_defs fadeOutsEndAtZero_def Let_def split: option.splits if_splits)
next
  case (Elapse d)
  with assms show ?thesis
    by (auto simp: modal_defs fadeOutsEndAtZero_def split: option.splits if_splits)
qed

lemma run_fadeOuts:
  "run ease es m = Some m' \<Longrightarrow> fadeOutsEndAtZero m \<Longrightarrow> fadeOutsEndAtZero m'"
proof (induction es arbitrary: m)
  case Nil
  then show ?case by simp
next
  case (Cons e es)
  from Cons.prems(1) obtain m1
    where s: "step ease e m = Some m1" and r: "run ease es m1 = Some m'"
    by (auto split: option.splits)
  from Cons.IH [OF r step_fadeOuts [OF s Cons.prems(2)]] show ?case .
qed




subsection \<open>What the events after the last toggle can do\<close>

lemma step_keeps_mounted:
  assumes "step ease e m = Some m'" and "\<not> isToggle e"
    and "modalVisible m" and "\<not> unmountPending m"
  shows "modalVisible m' \<and> \<not> unmountPending m'"
proof (cases e)
  case (SetVisible b)
  with assms(2) show ?thesis by simp
next
  case OnShow
  with assms show ?thesis
    by (auto simp: modal_defs unmountPending_def invoke_modalVisible Let_def
        split: option.splits if_splits)
next
  case (Elapse d)
  with assms show ?thesis
    by (auto simp: modal_defs unmountPending_def invoke_modalVisible
        split: option.splits if_splits)
qed

lemma step_keeps_doomed:
  assumes "step ease e m = Some m'" and "\<not> isToggle e"
    and "unmountPending m \<or> \<not> modalVisible m"
  shows "unmountPending m' \<or> \<not> modalVisible m'"
proof (cases e)
  case (SetVisible b)
  with assms(2) show ?thesis by simp
next
  case OnShow
  with assms show ?thesis
    by (auto simp: modal_defs unmountPending_def invoke_modalVisible Let_def
        split: option.splits if_splits)
next
  case (Elapse d)
  with assms show ?thesis
    by (auto simp: modal_defs unmountPending_def invoke_modalVisible
        split: option.splits if_splits)
qed

lemma run_keeps_mounted:
  "run ease es m = Some m' \<Longrightarrow> \<not> list_ex isToggle es \<Longrightarrow>
   modalVisible m \<Longrightarrow> \<not> unmountPending m \<Longrightarrow> modalVisible m' \<and> \<not> unmountPending m'"
proof (induction es arbitrary: m)
  case Nil
  then show ?case by simp
next
  case (Cons e es)
  from Cons.prems(1) obtain m1
    where s: "step ease e m = Some m1" and r: "run ease es m1 = Some m'"
    by (auto split: option.splits)
  from Cons.prems(2) have ne: "\<not> isToggle e" and nes: "\<not> list_ex isToggle es" by simp_all
  from step_keeps_mounted [OF s ne Cons.prems(3,4)]
  show ?case using Cons.IH [OF r nes] by blast
qed

lemma run_keeps_doomed:
  "run ease es m = Some m' \<Longrightarrow> \<not> list_ex isToggle es \<Longrightarrow>
   unmountPending m \<or> \<not> modalVisible m \<Longrightarrow> unmountPending m' \<or> \<not> modalVisible m'"
proof (induction es arbitrary: m)
  case Nil
  then show ?case by simp
next
  case (Cons e es)
  from Cons.prems(1) obtain m1
    where s: "step ease e m = Some m1" and r: "run ease es m1 = Some m'"
    by (auto split: option.splits)
  from Cons.prems(2) have ne: "\<not> isToggle e" and nes: "\<not> list_ex isToggle es" by simp_all
  from step_keeps_doomed [OF s ne Cons.prems(3)]
  show ?case using Cons.IH [OF r nes] by blast
qed

lemma toggle_outcome:
  assumes "step ease (SetVisible b) m0 = Some m1"
  shows "if b \<and> \<not> unmountPending m0 then modalVisible m1 \<and> \<not> unmountPending m1
         else unmountPending m1 \<or> \<not> modalVisible m1"
  using assms
  by (auto simp: modal_defs unmountPending_def invoke_modalVisible Let_def
      split: option.splits if_splits)

lemma newModal_outcome:
  "if visible p then modalVisible (newModal p) \<and> \<not> unmountPending (newModal p)
   else unmountPending (newModal p) \<or> \<not> modalVisible (newModal p)"
  by (auto simp: newModal_def modal_defs unmountPending_def invoke_modalVisible Let_def
      split: option.splits if_splits)

lemma stable_not_pending: "stable m \<Longrightarrow> \<not> unmountPending m"
  by (simp add: stable_def unmountPending_def)

text \<open>
  The state in which a run ends after its last toggle: mounted exactly when the toggle
  was to true and no fade-out was pending when it was handled.
\<close>

lemma mounted_after_toggle_iff:
  assumes s: "step ease (SetVisible b) m0 = Some m1" and r: "run ease es m1 = Some m"
    and n: "\<not> list_ex isToggle es" and st: "stable m"
  shows "modalVisible m \<longleftrightarrow> b \<and> \<not> unmountPending m0"
proof (cases "b \<and> \<not> unmountPending m0")
  case True
  with toggle_outcome [OF s] have "modalVisible m1" "\<not> unmountPending m1" by simp_all
  from run_keeps_mounted [OF r n this] True show ?thesis by simp
next
  case False
  with toggle_outcome [OF s] have "unmountPending m1 \<or> \<not> modalVisible m1" by simp
  from run_keeps_doomed [OF r n this] stable_not_pending [OF st] False
  show ?thesis by simp
qed

lemma mounted_after_newModal_iff:
  assumes r: "run ease es (newModal p) = Some m"
    and n: "\<not> list_ex isToggle es" and st: "stable m"
  shows "modalVisible m \<longleftrightarrow> visible p"
proof (cases "visible p")
  case True
  with newModal_outcome [of p]
  have "modalVisible (newModal p)" "\<not> unmountPending (newModal p)" by simp_all
  from run_keeps_mounted [OF r n this] True show ?thesis by simp
next
  case False
  with newModal_outcome [of p]
  have "unmountPending (newModal p) \<or> \<not> modalVisible (newModal p)" by simp
  from run_keeps_doomed [OF r n this] stable_not_pending [OF st] False
  show ?thesis by simp
qed

subsection \<open>Unmounting and the opacity of the mask\<close>




subsection \<open>Requests that arrive while an animation is attached\<close>

text \<open>
  Claim C2, as stated, fails: an open modal is closed and re-opened 30 units later. The
  re-opening leaves the fade-out attached, with its target 0 and its callback; 58 units
  later the fade-out ends and its callback unmounts the modal, although \<open>visible\<close> is true.
\<close>

theorem C2_counterexample:
  "run easeLinear [OnShow, Elapse 88, SetVisible False, Elapse 30, SetVisible True]
     (newModal \<lparr>visible = True, opacity = None\<rparr>)
   = Some \<lparr> props = \<lparr>visible = True, opacity = None\<rparr>, modalVisible = True,
            maskOpacity = 29 / 88,
            running = Some \<lparr>fromValue = 1 / 2, toValue = 0, duration = 88, startTime = 88,
                             onEnd = Some Unmount\<rparr>,
            shown = True, clock = 118 \<rparr>
   \<and> run easeLinear [OnShow, Elapse 88, SetVisible False, Elapse 30, SetVisible True, Elapse 58]
       (newModal \<lparr>visible = True, opacity = None\<rparr>)
     = Some \<lparr> props = \<lparr>visible = True, opacity = None\<rparr>, modalVisible = False,
              maskOpacity = 0, running = None, shown = False, clock = 176 \<rparr>"
  by (simp add: run_defs)

text \<open>
  Claim C2, amended: a request to close that arrives while no fade-out is attached (so
  during a fade-in, which has no callback) replaces the attached animation by one fade-out
  towards 0 that starts at the current opacity, and nothing else changes at that moment:
  the modal stays mounted and the opacity is the same. A request to open sets
  \<open>modalVisible\<close> and leaves the attached animation and the opacity as they are.
\<close>

theorem C2_close_redirects_open_keeps:
  "(step ease (SetVisible False) m = Some m' \<and> \<not> unmountPending m \<longrightarrow>
      running m' = Some \<lparr>fromValue = maskOpacity m, toValue = 0, duration = 88,
                          startTime = clock m, onEnd = Some Unmount\<rparr>
      \<and> maskOpacity m' = maskOpacity m \<and> modalVisible m' = modalVisible m)
   \<and> (step ease (SetVisible True) m = Some m'' \<longrightarrow>
      modalVisible m'' \<and> running m'' = running m \<and> maskOpacity m'' = maskOpacity m)"
  by (auto simp: modal_defs unmountPending_def invoke_modalVisible Let_def
      split: option.splits if_splits)

text \<open>
  The amended claim C2 at a modal that is closed 40 units into its fade-in, and at a
  modal that is re-opened 30 units into its fade-out.
\<close>

theorem C2_close_redirects_open_keeps_witness:
  "step easeLinear (SetVisible False)
      \<lparr> props = \<lparr>visible = True, opacity = None\<rparr>, modalVisible = True, maskOpacity = 5 / 22,
        running = Some \<lparr>fromValue = 0, toValue = 1 / 2, duration = 88, startTime = 0,
                         onEnd = None\<rparr>,
        shown = True, clock = 40 \<rparr>
    = Some \<lparr> props = \<lparr>visible = False, opacity = None\<rparr>, modalVisible = True,
             maskOpacity = 5 / 22,
             running = Some \<lparr>fromValue = 5 / 22, toValue = 0, duration = 88, startTime = 40,
                              onEnd = Some Unmount\<rparr>,
             shown = True, clock = 40 \<rparr>
   \<and> \<not> unmountPending
      \<lparr> props = \<lparr>visible = True, opacity = None\<rparr>, modalVisible = True, maskOpacity = 5 / 22,
        running = Some \<lparr>fromValue = 0, toValue = 1 / 2, duration = 88, startTime = 0,
                         onEnd = None\<rparr>,
        shown = True, clock = 40 \<rparr>
   \<and> step easeLinear (SetVisible True)
      \<lparr> props = \<lparr>visible = False, opacity = None\<rparr>, modalVisible = True, maskOpacity = 29 / 88,
        running = Some \<lparr>fromValue = 1 / 2, toValue = 0, duration = 88, startTime = 88,
                         onEnd = Some Unmount\<rparr>,
        shown = True, clock = 118 \<rparr>
    = Some \<lparr> props = \<lparr>visible = True, opacity = None\<rparr>, modalVisible = True,
             maskOpacity = 29 / 88,
             running = Some \<lparr>fromValue = 1 / 2, toValue = 0, duration = 88, startTime = 88,
                              onEnd = Some Unmount\<rparr>,
             shown = True, clock = 118 \<rparr>"
  using C2_close_redirects_open_keeps
    [of easeLinear
      "\<lparr> props = \<lparr>visible = True, opacity = None\<rparr>, modalVisible = True, maskOpacity = 5 / 22,
        running = Some \<lparr>fromValue = 0, toValue = 1 / 2, duration = 88, startTime = 0,
                         onEnd = None\<rparr>,
        shown = True, clock = 40 \<rparr>"
      "\<lparr> props = \<lparr>visible = False, opacity = None\<rparr>, modalVisible = True,
             maskOpacity = 5 / 22,
             running = Some \<lparr>fromValue = 5 / 22, toValue = 0, duration = 88, startTime = 40,
                              onEnd = Some Unmount\<rparr>,
             shown = True, clock = 40 \<rparr>"]
    C2_close_redirects_open_keeps
    [of easeLinear
      "\<lparr> props = \<lparr>visible = False, opacity = None\<rparr>, modalVisible = True, maskOpacity = 29 / 88,
        running = Some \<lparr>fromValue = 1 / 2, toValue = 0, duration = 88, startTime = 88,
                         onEnd = Some Unmount\<rparr>,
        shown = True, clock = 118 \<rparr>" _
      "\<lparr> props = \<lparr>visible = True, opacity = None\<rparr>, modalVisible = True,
             maskOpacity = 29 / 88,
             running = Some \<lparr>fromValue = 1 / 2, toValue = 0, duration = 88, startTime = 88,
                              onEnd = Some Unmount\<rparr>,
             shown = True, clock = 118 \<rparr>"]
  by (simp add: run_defs unmountPending_def)

subsection \<open>The stabilised state and the last toggle\<close>

text \<open>
  Claim C3, as stated, fails: an open modal is closed, re-opened 44 units later, and the
  fade-out then ends. The run is stabilised, its last toggle was to true, and the modal is
  unmounted.
\<close>

theorem C3_counterexample:
  "run easeLinear [OnShow, Elapse 88, SetVisible False, Elapse 44, SetVisible True, Elapse 44]
     (newModal \<lparr>visible = True, opacity = None\<rparr>)
   = Some \<lparr> props = \<lparr>visible = True, opacity = None\<rparr>, modalVisible = False,
            maskOpacity = 0, running = None, shown = False, clock = 176 \<rparr>
   \<and> stable \<lparr> props = \<lparr>visible = True, opacity = None\<rparr>, modalVisible = False,
              maskOpacity = 0, running = None, shown = False, clock = 176 \<rparr>"
  by (simp add: run_defs)

text \<open>
  Claim C3, amended: when a run has stabilised after its last toggle, the modal is mounted
  if and only if that toggle was to true, provided that the toggle was not one to true
  handled while a fade-out was attached. The value of \<open>visible\<close> that the constructor sees
  counts as the last toggle of a run without toggles.
\<close>

theorem C3_mounted_after_last_toggle:
  "(step ease (SetVisible b) m0 = Some m1 \<and> run ease es m1 = Some m \<and>
      \<not> list_ex isToggle es \<and> stable m \<and> \<not> (b \<and> unmountPending m0)
      \<longrightarrow> (modalVisible m \<longleftrightarrow> b))
   \<and> (run ease es' (newModal p) = Some m' \<and> \<not> list_ex isToggle es' \<and> stable m'
      \<longrightarrow> (modalVisible m' \<longleftrightarrow> visible p))"
  using mounted_after_toggle_iff [of ease b m0 m1 es m]
    mounted_after_newModal_iff [of ease es' p m']
  by blast

text \<open>
  The amended claim C3 at three runs: a closed modal is opened and its fade-in ends; an
  open modal is closed and its fade-out ends; a modal constructed with \<open>visible\<close> true
  and left alone until its fade-in has ended.
\<close>

theorem C3_mounted_after_last_toggle_witness:
  "step easeLinear (SetVisible True)
      \<lparr> props = \<lparr>visible = False, opacity = None\<rparr>, modalVisible = False, maskOpacity = 0,
        running = None, shown = False, clock = 88 \<rparr>
    = Some \<lparr> props = \<lparr>visible = True, opacity = None\<rparr>, modalVisible = True, maskOpacity = 0,
             running = None, shown = False, clock = 88 \<rparr>
   \<and> run easeLinear [Elapse 5, OnShow, Elapse 88]
        \<lparr> props = \<lparr>visible = True, opacity = None\<rparr>, modalVisible = True, maskOpacity = 0,
          running = None, shown = False, clock = 88 \<rparr>
      = Some \<lparr> props = \<lparr>visible = True, opacity = None\<rparr>, modalVisible = True,
               maskOpacity = 1 / 2, running = None, shown = True, clock = 181 \<rparr>
   \<and> \<not> list_ex isToggle [Elapse 5, OnShow, Elapse 88]
   \<and> stable \<lparr> props = \<lparr>visible = True, opacity = None\<rparr>, modalVisible = True,
               maskOpacity = 1 / 2, running = None, shown = True, clock = 181 \<rparr>
   \<and> \<not> unmountPending
        \<lparr> props = \<lparr>visible = False, opacity = None\<rparr>, modalVisible = False, maskOpacity = 0,
          running = None, shown = False, clock = 88 \<rparr>
   \<and> (modalVisible \<lparr> props = \<lparr>visible = True, opacity = None\<rparr>, modalVisible = True,
               maskOpacity = 1 / 2, running = None, shown = True, clock = 181 \<rparr> \<longleftrightarrow> True)
   \<and> step easeLinear (SetVisible False)
        \<lparr> props = \<lparr>visible = True, opacity = None\<rparr>, modalVisible = True,
          maskOpacity = 1 / 2, running = None, shown = True, clock = 181 \<rparr>
      = Some \<lparr> props = \<lparr>visible = False, opacity = None\<rparr>, modalVisible = True,
               maskOpacity = 1 / 2,
               running = Some \<lparr>fromValue = 1 / 2, toValue = 0, duration = 88,
                                startTime = 181, onEnd = Some Unmount\<rparr>,
               shown = True, clock = 181 \<rparr>
   \<and> run easeLinear [Elapse 88]
        \<lparr> props = \<lparr>visible = False, opacity = None\<rparr>, modalVisible = True,
          maskOpacity = 1 / 2,
          running = Some \<lparr>fromValue = 1 / 2, toValue = 0, duration = 88,
                           startTime = 181, onEnd = Some Unmount\<rparr>,
          shown = True, clock = 181 \<rparr>
      = Some \<lparr> props = \<lparr>visible = False, opacity = None\<rparr>, modalVisible = False,
               maskOpacity = 0, running = None, shown = False, clock = 269 \<rparr>
   \<and> stable \<lparr> props = \<lparr>visible = False, opacity = None\<rparr>, modalVisible = False,
               maskOpacity = 0, running = None, shown = False, clock = 269 \<rparr>
   \<and> (modalVisible \<lparr> props = \<lparr>visible = False, opacity = None\<rparr>, modalVisible = False,
               maskOpacity = 0, running = None, shown = False, clock = 269 \<rparr> \<longleftrightarrow> False)
   \<and> run easeLinear [OnShow, Elapse 88] (newModal \<lparr>visible = True, opacity = None\<rparr>)
      = Some \<lparr> props = \<lparr>visible = True, opacity = None\<rparr>, modalVisible = True,
               maskOpacity = 1 / 2, running = None, shown = True, clock = 88 \<rparr>
   \<and> \<not> list_ex isToggle [OnShow, Elapse 88]
   \<and> stable \<lparr> props = \<lparr>visible = True, opacity = None\<rparr>, modalVisible = True,
               maskOpacity = 1 / 2, running = None, shown = True, clock = 88 \<rparr>
   \<and> (modalVisible \<lparr> props = \<lparr>visible = True, opacity = None\<rparr>, modalVisible = True,
               maskOpacity = 1 / 2, running = None, shown = True, clock = 88 \<rparr>
        \<longleftrightarrow> visible \<lparr>visible = True, opacity = None\<rparr>)"
  using C3_mounted_after_last_toggle
    [of easeLinear True
      "\<lparr> props = \<lparr>visible = False, opacity = None\<rparr>, modalVisible = False, maskOpacity = 0,
        running = None, shown = False, clock = 88 \<rparr>"
      "\<lparr> props = \<lparr>visible = True, opacity = None\<rparr>, modalVisible = True, maskOpacity = 0,
             running = None, shown = False, clock = 88 \<rparr>"
      "[Elapse 5, OnShow, Elapse 88]"
      "\<lparr> props = \<lparr>visible = True, opacity = None\<rparr>, modalVisible = True,
               maskOpacity = 1 / 2, running = None, shown = True, clock = 181 \<rparr>"
      "[OnShow, Elapse 88]" "\<lparr>visible = True, opacity = None\<rparr>"
      "\<lparr> props = \<lparr>visible = True, opacity = None\<rparr>, modalVisible = True,
               maskOpacity = 1 / 2, running = None, shown = True, clock = 88 \<rparr>"]
    C3_mounted_after_last_toggle
    [of easeLinear False
      "\<lparr> props = \<lparr>visible = True, opacity = None\<rparr>, modalVisible = True,
          maskOpacity = 1 / 2, running = None, shown = True, clock = 181 \<rparr>"
      "\<lparr> props = \<lparr>visible = False, opacity = None\<rparr>, modalVisible = True,
               maskOpacity = 1 / 2,
               running = Some \<lparr>fromValue = 1 / 2, toValue = 0, duration = 88,
                                startTime = 181, onEnd = Some Unmount\<rparr>,
               shown = True, clock = 181 \<rparr>"
      "[Elapse 88]"
      "\<lparr> props = \<lparr>visible = False, opacity = None\<rparr>, modalVisible = False,
               maskOpacity = 0, running = None, shown = False, clock = 269 \<rparr>"]
  by (simp add: run_defs unmountPending_def)

subsection \<open>The order of mounting, fading and unmounting\<close>

text \<open>
  Claim C7, as stated, fails in its second half: an open modal is closed, re-opened after
  44 units and closed again at once. The second request to close starts a new fade-out at
  time 132, which stops the first one; the callback of the first runs and unmounts at time
  132, 44 units before the end of the first fade-out and with the mask at 1/4.
\<close>

theorem C7_counterexample:
  "run easeLinear [OnShow, Elapse 88, SetVisible False, Elapse 44, SetVisible True]
     (newModal \<lparr>visible = True, opacity = None\<rparr>)
   = Some \<lparr> props = \<lparr>visible = True, opacity = None\<rparr>, modalVisible = True,
            maskOpacity = 1 / 4,
            running = Some \<lparr>fromValue = 1 / 2, toValue = 0, duration = 88, startTime = 88,
                             onEnd = Some Unmount\<rparr>,
            shown = True, clock = 132 \<rparr>
   \<and> step easeLinear (SetVisible False)
       \<lparr> props = \<lparr>visible = True, opacity = None\<rparr>, modalVisible = True,
         maskOpacity = 1 / 4,
         running = Some \<lparr>fromValue = 1 / 2, toValue = 0, duration = 88, startTime = 88,
                          onEnd = Some Unmount\<rparr>,
         shown = True, clock = 132 \<rparr>
     = Some \<lparr> props = \<lparr>visible = False, opacity = None\<rparr>, modalVisible = False,
              maskOpacity = 1 / 4, running = None, shown = False, clock = 132 \<rparr>"
  by (simp add: run_defs)

text \<open>
  Claim C7, amended: in every state reached from the constructor, a request to open mounts
  at once, starts no animation and leaves the mask as it is; a step that attaches a
  fade-in is a call of \<open>onShow\<close>, and such a call, when no fade-out is attached, attaches
  the fade-in from the current opacity to the target; and a step that does not interrupt a
  fade-out unmounts only as a frame at or after the end of a fade-out, 88 units or more
  after its start, with the mask at 0.
\<close>

theorem C7_mount_first_unmount_last:
  assumes "run ease es (newModal p) = Some m" and "step ease e m = Some m'"
  shows "(e = SetVisible True \<longrightarrow>
          modalVisible m' \<and> running m' = running m \<and> maskOpacity m' = maskOpacity m)
    \<and> (fadeInAttached m' \<and> running m' \<noteq> running m \<longrightarrow> e = OnShow)
    \<and> (e = OnShow \<and> \<not> unmountPending m \<longrightarrow>
          running m' = Some \<lparr>fromValue = maskOpacity m, toValue = propOpacity m,
                              duration = 88, startTime = clock m, onEnd = None\<rparr>)
    \<and> (\<not> interrupts e m \<and> modalVisible m \<and> \<not> modalVisible m' \<longrightarrow>
          (\<exists>d a. e = Elapse d \<and> running m = Some a \<and> onEnd a = Some Unmount \<and>
                 toValue a = 0 \<and> startTime a + 88 \<le> clock m' \<and>
                 maskOpacity m' = 0 \<and> running m' = None))"
proof -
  have mount: "e = SetVisible True \<longrightarrow>
          modalVisible m' \<and> running m' = running m \<and> maskOpacity m' = maskOpacity m"
    using assms(2) by (auto simp: modal_defs split: if_splits)
  have only: "fadeInAttached m' \<and> running m' \<noteq> running m \<longrightarrow> e = OnShow"
  proof (cases e)
    case (SetVisible b)
    with assms(2) show ?thesis
      by (auto simp: modal_defs fadeInAttached_def invoke_modalVisible Let_def
          split: option.splits if_splits)
  next
    case OnShow
    then show ?thesis by simp
  next
    case (Elapse d)
    with assms(2) show ?thesis
      by (auto simp: modal_defs fadeInAttached_def invoke_modalVisible
          split: option.splits if_splits)
  qed
  have fadeIn: "e = OnShow \<and> \<not> unmountPending m \<longrightarrow>
          running m' = Some \<lparr>fromValue = maskOpacity m, toValue = propOpacity m,
                              duration = 88, startTime = clock m, onEnd = None\<rparr>"
    using assms(2)
    by (auto simp: modal_defs unmountPending_def invoke_modalVisible Let_def
        split: if_splits option.splits)
  have wf: "fadeOutsEndAtZero m"
    using run_fadeOuts [OF assms(1) newModal_fadeOuts] .
  have unmount: "\<not> interrupts e m \<and> modalVisible m \<and> \<not> modalVisible m' \<longrightarrow>
          (\<exists>d a. e = Elapse d \<and> running m = Some a \<and> onEnd a = Some Unmount \<and>
                 toValue a = 0 \<and> startTime a + 88 \<le> clock m' \<and>
                 maskOpacity m' = 0 \<and> running m' = None)"
  proof (cases e)
    case (SetVisible b)
    with assms(2) show ?thesis
      by (auto simp: modal_defs unmountPending_def invoke_modalVisible Let_def
          split: option.splits if_splits)
  next
    case OnShow
    with assms(2) show ?thesis
      by (auto simp: modal_defs unmountPending_def invoke_modalVisible Let_def
          split: option.splits if_splits)
  next
    case (Elapse d)
    with assms(2) wf show ?thesis
      by (auto simp: modal_defs fadeOutsEndAtZero_def invoke_modalVisible
          split: option.splits if_splits)
  qed
  from mount only fadeIn unmount show ?thesis by (intro conjI)
qed

text \<open>
  The amended claim C7 at three steps: a closed modal is asked to open; the platform calls
  \<open>onShow\<close> on a modal just constructed with \<open>visible\<close> true; a fade-out that has run for
  44 units gets its next frame 50 units later, 6 units after its end.
\<close>

theorem C7_mount_first_unmount_last_witness:
  "run easeLinear [Elapse 88] (newModal \<lparr>visible = False, opacity = None\<rparr>)
    = Some \<lparr> props = \<lparr>visible = False, opacity = None\<rparr>, modalVisible = False,
             maskOpacity = 0, running = None, shown = False, clock = 88 \<rparr>
   \<and> step easeLinear (SetVisible True)
        \<lparr> props = \<lparr>visible = False, opacity = None\<rparr>, modalVisible = False,
          maskOpacity = 0, running = None, shown = False, clock = 88 \<rparr>
      = Some \<lparr> props = \<lparr>visible = True, opacity = None\<rparr>, modalVisible = True,
               maskOpacity = 0, running = None, shown = False, clock = 88 \<rparr>
   \<and> run easeLinear [] (newModal \<lparr>visible = True, opacity = None\<rparr>)
      = Some \<lparr> props = \<lparr>visible = True, opacity = None\<rparr>, modalVisible = True,
               maskOpacity = 0, running = None, shown = False, clock = 0 \<rparr>
   \<and> \<not> unmountPending
        \<lparr> props = \<lparr>visible = True, opacity = None\<rparr>, modalVisible = True,
          maskOpacity = 0, running = None, shown = False, clock = 0 \<rparr>
   \<and> step easeLinear OnShow
        \<lparr> props = \<lparr>visible = True, opacity = None\<rparr>, modalVisible = True,
          maskOpacity = 0, running = None, shown = False, clock = 0 \<rparr>
      = Some \<lparr> props = \<lparr>visible = True, opacity = None\<rparr>, modalVisible = True,
               maskOpacity = 0,
               running = Some \<lparr>fromValue = 0, toValue = 1 / 2, duration = 88, startTime = 0,
                                onEnd = None\<rparr>,
               shown = True, clock = 0 \<rparr>
   \<and> fadeInAttached
        \<lparr> props = \<lparr>visible = True, opacity = None\<rparr>, modalVisible = True,
          maskOpacity = 0,
          running = Some \<lparr>fromValue = 0, toValue = 1 / 2, duration = 88, startTime = 0,
                           onEnd = None\<rparr>,
          shown = True, clock = 0 \<rparr>
   \<and> run easeLinear [OnShow, Elapse 88, SetVisible False, Elapse 44]
        (newModal \<lparr>visible = True, opacity = None\<rparr>)
      = Some \<lparr> props = \<lparr>visible = False, opacity = None\<rparr>, modalVisible = True,
               maskOpacity = 1 / 4,
               running = Some \<lparr>fromValue = 1 / 2, toValue = 0, duration = 88, startTime = 88,
                                onEnd = Some Unmount\<rparr>,
               shown = True, clock = 132 \<rparr>
   \<and> step easeLinear (Elapse 50)
        \<lparr> props = \<lparr>visible = False, opacity = None\<rparr>, modalVisible = True,
          maskOpacity = 1 / 4,
          running = Some \<lparr>fromValue = 1 / 2, toValue = 0, duration = 88, startTime = 88,
                           onEnd = Some Unmount\<rparr>,
          shown = True, clock = 132 \<rparr>
      = Some \<lparr> props = \<lparr>visible = False, opacity = None\<rparr>, modalVisible = False,
               maskOpacity = 0, running = None, shown = False, clock = 182 \<rparr>
   \<and> \<not> interrupts (Elapse 50)
        \<lparr> props = \<lparr>visible = False, opacity = None\<rparr>, modalVisible = True,
          maskOpacity = 1 / 4,
          running = Some \<lparr>fromValue = 1 / 2, toValue = 0, duration = 88, startTime = 88,
                           onEnd = Some Unmount\<rparr>,
          shown = True, clock = 132 \<rparr>
   \<and> (88::nat) + 88 \<le> 182"
  using C7_mount_first_unmount_last
    [of easeLinear "[Elapse 88]" "\<lparr>visible = False, opacity = None\<rparr>"
      "\<lparr> props = \<lparr>visible = False, opacity = None\<rparr>, modalVisible = False,
          maskOpacity = 0, running = None, shown = False, clock = 88 \<rparr>"
      "SetVisible True"
      "\<lparr> props = \<lparr>visible = True, opacity = None\<rparr>, modalVisible = True,
               maskOpacity = 0, running = None, shown = False, clock = 88 \<rparr>"]
    C7_mount_first_unmount_last
    [of easeLinear "[]" "\<lparr>visible = True, opacity = None\<rparr>"
      "\<lparr> props = \<lparr>visible = True, opacity = None\<rparr>, modalVisible = True,
          maskOpacity = 0, running = None, shown = False, clock = 0 \<rparr>"
      OnShow
      "\<lparr> props = \<lparr>visible = True, opacity = None\<rparr>, modalVisible = True,
               maskOpacity = 0,
               running = Some \<lparr>fromValue = 0, toValue = 1 / 2, duration = 88, startTime = 0,
                                onEnd = None\<rparr>,
               shown = True, clock = 0 \<rparr>"]
    C7_mount_first_unmount_last
    [of easeLinear "[OnShow, Elapse 88, SetVisible False, Elapse 44]"
      "\<lparr>visible = True, opacity = None\<rparr>"
      "\<lparr> props = \<lparr>visible = False, opacity = None\<rparr>, modalVisible = True,
          maskOpacity = 1 / 4,
          running = Some \<lparr>fromValue = 1 / 2, toValue = 0, duration = 88, startTime = 88,
                           onEnd = Some Unmount\<rparr>,
          shown = True, clock = 132 \<rparr>"
      "Elapse 50"
      "\<lparr> props = \<lparr>visible = False, opacity = None\<rparr>, modalVisible = False,
               maskOpacity = 0, running = None, shown = False, clock = 182 \<rparr>"]
  by (simp add: run_defs unmountPending_def fadeInAttached_def)

subsection \<open>The timeline of a fade\<close>





subsection \<open>The target opacity\<close>

text \<open>
  Claim C10: \<open>propOpacity\<close> is the \<open>opacity\<close> prop when that is truthy and 1/2 otherwise;
  an \<open>opacity\<close> of 0 gives 1/2; the result is never 0, and it is the target of every
  fade-in.
\<close>

theorem C10_propOpacity_falls_back_on_zero:
  "propOpacity m = (if truthy (opacity (props m))
                    then (case opacity (props m) of Some (Num r) \<Rightarrow> r | _ \<Rightarrow> 1 / 2)
                    else 1 / 2)
   \<and> propOpacity (m\<lparr>props := (props m)\<lparr>opacity := Some (Num 0)\<rparr>\<rparr>) = 1 / 2
   \<and> propOpacity m \<noteq> 0
   \<and> map_option toValue (running (updateMaskVisible True cb m)) = Some (propOpacity m)"
  by (cases "opacity (props m)" rule: truthy.cases)
     (simp_all add: propOpacity_def updateMaskVisible_def timingStart_def Let_def)

end
